theory Spec2Isabelle
  imports Main "HOL-Library.Sublist"
begin

section \<open>Strings as the code uses them\<close>

text \<open>
  JavaScript strings are modelled as \<open>string\<close> (lists of 8-bit characters). The string
  methods the docset code calls are given here with their JavaScript behaviour on that
  alphabet: \<open>toLowerCase\<close> folds the ASCII letters, \<open>trim\<close> removes white space at both
  ends, \<open>slice\<close>, \<open>split\<close> and \<open>lastIndexOf\<close> are written with \<open>take\<close>, \<open>drop\<close> and
  list recursion.
\<close>

definition toLowerChar :: "char \<Rightarrow> char" where
  "toLowerChar c =
     (case map_of (zip ''ABCDEFGHIJKLMNOPQRSTUVWXYZ'' ''abcdefghijklmnopqrstuvwxyz'') c of
        Some d \<Rightarrow> d
      | None \<Rightarrow> c)"

definition toLowerCase :: "string \<Rightarrow> string" where
  "toLowerCase s = map toLowerChar s"

definition is_space :: "char \<Rightarrow> bool" where
  "is_space c = (c \<in> set [CHR 0x09, CHR 0x0A, CHR 0x0B, CHR 0x0C, CHR 0x0D, CHR 0x20, CHR 0xA0])"

definition trim :: "string \<Rightarrow> string" where
  "trim s = rev (dropWhile is_space (rev (dropWhile is_space s)))"

definition is_alnum :: "char \<Rightarrow> bool" where
  "is_alnum c = (toLowerChar c \<in> set ''abcdefghijklmnopqrstuvwxyz0123456789'')"

definition is_alpha :: "char \<Rightarrow> bool" where
  "is_alpha c = (toLowerChar c \<in> set ''abcdefghijklmnopqrstuvwxyz'')"

definition is_digit :: "char \<Rightarrow> bool" where
  "is_digit c = (c \<in> set ''0123456789'')"

definition startsWith :: "string \<Rightarrow> string \<Rightarrow> bool" where
  "startsWith s t = prefix t s"

definition endsWith :: "string \<Rightarrow> string \<Rightarrow> bool" where
  "endsWith s t = suffix t s"

fun str_includes :: "string \<Rightarrow> string \<Rightarrow> bool" where
  "str_includes [] t = (t = [])"
| "str_includes (c # s) t = (prefix t (c # s) \<or> str_includes s t)"

text \<open>\<open>s.slice(0, -n)\<close>: everything but the last \<open>n\<close> characters.\<close>

definition slice_off :: "nat \<Rightarrow> string \<Rightarrow> string" where
  "slice_off n s = take (length s - n) s"

text \<open>\<open>s.slice(0, s.lastIndexOf("/") + 1)\<close>: up to and including the last slash.\<close>

definition upto_last_slash :: "string \<Rightarrow> string" where
  "upto_last_slash s = rev (dropWhile (\<lambda>c. c \<noteq> CHR ''/'') (rev s))"

text \<open>\<open>s.split(d)\<close> for a one-character separator: never the empty list.\<close>

fun split_on :: "char \<Rightarrow> string \<Rightarrow> string list" where
  "split_on d [] = [[]]"
| "split_on d (c # s) =
     (if c = d then [] # split_on d s
      else (case split_on d s of [] \<Rightarrow> [[c]] | x # xs \<Rightarrow> (c # x) # xs))"

fun join_with :: "char \<Rightarrow> string list \<Rightarrow> string" where
  "join_with d [] = []"
| "join_with d [s] = s"
| "join_with d (s # t) = s @ d # join_with d t"

section \<open>Regular expressions\<close>

text \<open>
  The regular expressions of the source are sequences, alternatives and capture groups
  over character classes, with greedy repetition of a class only. \<open>rx_run\<close> gives every
  way the expression can match a prefix of the input, in the order a backtracking
  matcher tries them (greedy first), each with the input left and the captures made so far.
\<close>

datatype rx =
    Chr "char \<Rightarrow> bool"
  | Many "char \<Rightarrow> bool"
  | Eps
  | Eol
  | Seq rx rx
  | Alt rx rx
  | Cap rx

type_synonym rx_state = "string \<times> string list"

fun rx_run :: "rx \<Rightarrow> rx_state \<Rightarrow> rx_state list" where
  "rx_run (Chr p) (s, cs) = (case s of [] \<Rightarrow> [] | c # t \<Rightarrow> if p c then [(t, cs)] else [])"
| "rx_run (Many p) (s, cs) =
     map (\<lambda>n. (drop n s, cs)) (rev [0 ..< Suc (length (takeWhile p s))])"
| "rx_run Eps st = [st]"
| "rx_run Eol (s, cs) = (if s = [] then [(s, cs)] else [])"
| "rx_run (Seq a b) st = concat (map (rx_run b) (rx_run a st))"
| "rx_run (Alt a b) st = rx_run a st @ rx_run b st"
| "rx_run (Cap r) (s, cs) =
     map (\<lambda>(s', cs'). (s', cs' @ [take (length s - length s') s])) (rx_run r (s, cs))"

definition rx_seq :: "rx list \<Rightarrow> rx" where
  "rx_seq rs = foldr Seq rs Eps"

definition rx_lit :: "string \<Rightarrow> rx" where
  "rx_lit s = rx_seq (map (\<lambda>c. Chr (\<lambda>x. x = c)) s)"

text \<open>A literal under the \<open>i\<close> flag.\<close>

definition rx_liti :: "string \<Rightarrow> rx" where
  "rx_liti s = rx_seq (map (\<lambda>c. Chr (\<lambda>x. toLowerChar x = toLowerChar c)) s)"

definition rx_plus :: "(char \<Rightarrow> bool) \<Rightarrow> rx" where
  "rx_plus p = Seq (Chr p) (Many p)"

definition rx_opt :: "rx \<Rightarrow> rx" where
  "rx_opt r = Alt r Eps"

text \<open>A match at the start of the input: the matched text, the captures, the rest.\<close>

definition rx_match_here :: "rx \<Rightarrow> string \<Rightarrow> (string \<times> string list \<times> string) option" where
  "rx_match_here r s =
     (case rx_run r (s, []) of
        [] \<Rightarrow> None
      | (rest, caps) # _ \<Rightarrow> Some (take (length s - length rest) s, caps, rest))"

text \<open>The leftmost match anywhere in the input (\<open>String.prototype.match\<close>).\<close>

fun rx_search :: "rx \<Rightarrow> string \<Rightarrow> (string \<times> string list \<times> string) option" where
  "rx_search r [] = rx_match_here r []"
| "rx_search r (c # s) =
     (case rx_match_here r (c # s) of Some m \<Rightarrow> Some m | None \<Rightarrow> rx_search r s)"

definition rx_test :: "rx \<Rightarrow> string \<Rightarrow> bool" where
  "rx_test r s = (rx_search r s \<noteq> None)"

text \<open>\<open>RegExp.prototype.test\<close> for an expression that starts with \<open>^\<close>.\<close>

definition rx_test_start :: "rx \<Rightarrow> string \<Rightarrow> bool" where
  "rx_test_start r s = (rx_match_here r s \<noteq> None)"

text \<open>
  \<open>matchAll\<close> under the \<open>g\<close> flag: the captures of every match, left to right; the
  search goes on after the match (one character further after an empty match).
\<close>

function rx_match_all :: "rx \<Rightarrow> string \<Rightarrow> string list list" where
  "rx_match_all r [] = []"
| "rx_match_all r (c # s) =
     (case rx_match_here r (c # s) of
        None \<Rightarrow> rx_match_all r s
      | Some (m, caps, rest) \<Rightarrow> caps # rx_match_all r (drop (max 1 (length m)) (c # s)))"
  by pat_completeness auto
termination
  by (relation "measure (\<lambda>(r, s). length s)") auto

text \<open>\<open>/^https?:\/\//i\<close>\<close>

definition http_scheme_rx :: rx where
  "http_scheme_rx = rx_seq [rx_liti ''http'', rx_opt (rx_liti ''s''), rx_lit ''://'']"

text \<open>\<open>/\.[a-z0-9]+$/i\<close>\<close>

definition file_ext_rx :: rx where
  "file_ext_rx = rx_seq [rx_lit ''.'', rx_plus is_alnum, Eol]"

section \<open>The platform's URL class\<close>

text \<open>
  \<open>new URL(...)\<close>, its getters and setters and \<open>toString()\<close> belong to the JavaScript
  platform. They are modelled for \<open>http\<close> and \<open>https\<close> URLs as the URL standard parses
  them: the scheme and the host are lower-cased, the path is split at \<open>/\<close> and its
  \<open>.\<close> and \<open>..\<close> segments are resolved, an empty path is \<open>/\<close>, the query runs from the
  first \<open>?\<close> and the fragment from the first \<open>#\<close>. A port or user information stays
  inside \<open>host\<close> as written, and characters are kept as they are (the standard would
  percent-encode some of them). A string with no \<open>http(s)://\<close> scheme or with an empty
  host does not parse (\<open>None\<close>: the constructor throws a \<open>TypeError\<close>).
\<close>

record URL =
  scheme :: string
  host :: string
  pathname :: string
  query :: "string option"
  fragment :: "string option"

definition URL_toString :: "URL \<Rightarrow> string" where
  "URL_toString u =
     scheme u @ ''://'' @ host u @ pathname u
       @ (case query u of None \<Rightarrow> [] | Some q \<Rightarrow> CHR ''?'' # q)
       @ (case fragment u of None \<Rightarrow> [] | Some f \<Rightarrow> CHR ''#'' # f)"

definition origin :: "URL \<Rightarrow> string" where
  "origin u = scheme u @ ''://'' @ host u"

text \<open>The \<open>hostname\<close> getter: the host without its port.\<close>

definition hostname :: "URL \<Rightarrow> string" where
  "hostname u = takeWhile (\<lambda>c. c \<noteq> CHR '':'') (host u)"

text \<open>The \<open>hash\<close> getter: empty for no fragment and for an empty one.\<close>

definition url_hash :: "URL \<Rightarrow> string" where
  "url_hash u = (case fragment u of None \<Rightarrow> [] | Some f \<Rightarrow> if f = [] then [] else CHR ''#'' # f)"

definition is_single_dot :: "string \<Rightarrow> bool" where
  "is_single_dot s = (toLowerCase s \<in> set [''.'', ''%2e''])"

definition is_double_dot :: "string \<Rightarrow> bool" where
  "is_double_dot s = (toLowerCase s \<in> set [''..'', ''.%2e'', ''%2e.'', ''%2e%2e''])"

text \<open>
  The path state of the URL parser: the segments read so far, then the segments still to
  read; the last segment is the one with no slash after it.
\<close>

fun path_segments :: "string list \<Rightarrow> string list \<Rightarrow> string list" where
  "path_segments acc [] = acc"
| "path_segments acc [s] =
     (if is_double_dot s then butlast acc @ [[]]
      else if is_single_dot s then acc @ [[]]
      else acc @ [s])"
| "path_segments acc (s # t) =
     (if is_double_dot s then path_segments (butlast acc) t
      else if is_single_dot s then path_segments acc t
      else path_segments (acc @ [s]) t)"

text \<open>The path a path string parses to, after the segments \<open>acc\<close> of a base.\<close>

definition parse_path :: "string list \<Rightarrow> string \<Rightarrow> string" where
  "parse_path acc p =
     CHR ''/'' # join_with CHR ''/''
       (path_segments acc (split_on CHR ''/'' (if startsWith p ''/'' then drop 1 p else p)))"

definition is_path_end :: "char \<Rightarrow> bool" where
  "is_path_end c = (c = CHR ''?'' \<or> c = CHR ''#'')"

definition is_host_end :: "char \<Rightarrow> bool" where
  "is_host_end c = (c = CHR ''/'' \<or> c = CHR ''?'' \<or> c = CHR ''#'')"

definition query_of :: "string \<Rightarrow> string option" where
  "query_of s = (case s of [] \<Rightarrow> None
     | c # t \<Rightarrow> if c = CHR ''?'' then Some (takeWhile (\<lambda>x. x \<noteq> CHR ''#'') t) else None)"

definition fragment_of :: "string \<Rightarrow> string option" where
  "fragment_of s = (case dropWhile (\<lambda>x. x \<noteq> CHR ''#'') s of [] \<Rightarrow> None | c # t \<Rightarrow> Some t)"

text \<open>What follows the host: path, query and fragment.\<close>

definition parse_tail :: "string \<Rightarrow> string \<Rightarrow> string list \<Rightarrow> string \<Rightarrow> URL" where
  "parse_tail sch h acc s =
     \<lparr>scheme = sch, host = h,
      pathname = parse_path acc (takeWhile (\<lambda>c. \<not> is_path_end c) s),
      query = query_of (dropWhile (\<lambda>c. \<not> is_path_end c) s),
      fragment = fragment_of s\<rparr>"

definition parse_authority :: "string \<Rightarrow> string \<Rightarrow> URL option" where
  "parse_authority sch s =
     (let h = takeWhile (\<lambda>c. \<not> is_host_end c) s
      in if h = [] then None
         else Some (parse_tail sch (toLowerCase h) [] (dropWhile (\<lambda>c. \<not> is_host_end c) s)))"

text \<open>\<open>new URL(s)\<close>\<close>

definition URL_parse :: "string \<Rightarrow> URL option" where
  "URL_parse s =
     (case rx_match_here http_scheme_rx s of
        None \<Rightarrow> None
      | Some (m, caps, rest) \<Rightarrow> parse_authority (toLowerCase (slice_off 3 m)) rest)"

text \<open>A scheme other than \<open>http(s)://\<close> at the start of a reference: \<open>/^[a-z][a-z0-9+.-]*:/i\<close>.\<close>

definition any_scheme_rx :: rx where
  "any_scheme_rx =
     rx_seq [Chr is_alpha, Many (\<lambda>c. is_alnum c \<or> c \<in> set ''+.-''), rx_lit '':'']"

text \<open>
  \<open>new URL(href, base)\<close>: a reference with an \<open>http(s)\<close> scheme is parsed on its own,
  one with another scheme is outside the model (\<open>None\<close>); otherwise \<open>//host...\<close> takes the
  base's scheme, \<open>/path\<close> the base's host, \<open>?query\<close> and \<open>#fragment\<close> the base's path
  too, the empty reference is the base without its fragment, and any other reference
  replaces the last segment of the base's path.
\<close>

definition base_segments :: "URL \<Rightarrow> string list" where
  "base_segments b = butlast (split_on CHR ''/'' (drop 1 (pathname b)))"

definition URL_parse_rel :: "string \<Rightarrow> string \<Rightarrow> URL option" where
  "URL_parse_rel href base =
     (case URL_parse base of
        None \<Rightarrow> None
      | Some b \<Rightarrow>
          if rx_test_start http_scheme_rx href then URL_parse href
          else if rx_test_start any_scheme_rx href then None
          else if startsWith href ''//'' then parse_authority (scheme b) (drop 2 href)
          else if href = [] then Some (b\<lparr>fragment := None\<rparr>)
          else if hd href = CHR ''#'' then Some (b\<lparr>fragment := fragment_of href\<rparr>)
          else if hd href = CHR ''?'' then Some (b\<lparr>query := query_of href, fragment := fragment_of href\<rparr>)
          else if hd href = CHR ''/'' then Some (parse_tail (scheme b) (host b) [] href)
          else Some (parse_tail (scheme b) (host b) (base_segments b) href))"

text \<open>The \<open>pathname\<close> setter parses its argument as a path.\<close>

definition set_pathname :: "string \<Rightarrow> URL \<Rightarrow> URL" where
  "set_pathname p u = u\<lparr>pathname := parse_path [] p\<rparr>"

section \<open>Detecting the generator (detect.ts)\<close>

text \<open>
  The tags a \<open>docsetType\<close> field holds at run time. \<open>docsetTypes\<close> is the list the source
  declares (types.ts), from which its type \<open>DocsetType\<close> is derived; \<open>Html\<close> is the tag
  \<open>"html"\<close> that \<open>fetchDocumentationMarkdown\<close> assigns to its result.
\<close>

datatype DocsetType =
  Apple | Docusaurus | Mkdocs | Sphinx | Typedoc | Jsdoc | Rustdoc | Godoc | Pdoc | Generic | Html

definition docsetTypes :: "DocsetType list" where
  "docsetTypes = [Apple, Docusaurus, Mkdocs, Sphinx, Typedoc, Jsdoc, Rustdoc, Godoc, Pdoc, Generic]"

definition is_quote :: "char \<Rightarrow> bool" where
  "is_quote c = (c = CHR 0x22 \<or> c = CHR 0x27)"

definition not_gt :: "char \<Rightarrow> bool" where
  "not_gt c = (c \<noteq> CHR ''>'')"

text \<open>\<open>/<meta[^>]+name=["']generator["'][^>]*content=["']([^"']+)["'][^>]*>/i\<close>\<close>

definition generatorRegex :: rx where
  "generatorRegex =
     rx_seq [rx_liti ''<meta'', rx_plus not_gt, rx_liti ''name='', Chr is_quote,
       rx_liti ''generator'', Chr is_quote, Many not_gt, rx_liti ''content='', Chr is_quote,
       Cap (rx_plus (\<lambda>c. \<not> is_quote c)), Chr is_quote, Many not_gt, rx_lit ''>'']"

definition getGenerator :: "string \<Rightarrow> string" where
  "getGenerator html =
     (case rx_search generatorRegex html of
        Some (m, c # cs, rest) \<Rightarrow> toLowerCase c
      | _ \<Rightarrow> [])"

definition hasAny :: "string \<Rightarrow> string list \<Rightarrow> bool" where
  "hasAny html needles = list_ex (\<lambda>needle. str_includes html needle) needles"

definition isAppleHost :: "string \<Rightarrow> bool" where
  "isAppleHost u =
     (case URL_parse u of
        None \<Rightarrow> False
      | Some parsed \<Rightarrow>
          endsWith (hostname parsed) ''developer.apple.com'' \<or> hostname parsed = ''sosumi.ai'')"

definition detectDocsetType :: "string \<Rightarrow> string \<Rightarrow> DocsetType" where
  \<open>detectDocsetType html u =
     (let generator = getGenerator html; lowerUrl = toLowerCase u
      in if isAppleHost u then Apple
         else if str_includes generator ''docusaurus''
                 \<or> hasAny html [''id="__docusaurus"'', ''data-docusaurus''] then Docusaurus
         else if str_includes generator ''mkdocs''
                 \<or> hasAny html [''md-content'', ''data-md-color-scheme''] then Mkdocs
         else if str_includes generator ''sphinx''
                 \<or> hasAny html [''sphinxsidebar'', ''wy-nav-side''] then Sphinx
         else if str_includes generator ''typedoc''
                 \<or> hasAny html [''tsd-kind'', ''tsd-page-title''] then Typedoc
         else if str_includes generator ''jsdoc''
                 \<or> hasAny html [''jsdoc'', ''class="page" id="main"''] then Jsdoc
         else if str_includes generator ''rustdoc''
                 \<or> hasAny html [''rustdoc'', ''rustdoc-search''] then Rustdoc
         else if str_includes lowerUrl ''pkg.go.dev'' \<or> str_includes lowerUrl ''godoc.org''
                 \<or> hasAny html [''pkg-overview''] then Godoc
         else if str_includes generator ''pdoc''
                 \<or> hasAny html [''pdoc'', ''module-list''] then Pdoc
         else Generic)\<close>

section \<open>Resolving and normalising the target URL (docset/index.ts)\<close>

text \<open>
  What the code throws: its own \<open>Error("baseUrl is required")\<close>, the \<open>TypeError\<close> of
  \<open>new URL\<close>, the \<open>SyntaxError\<close> of \<open>JSON.parse\<close> and a \<open>TypeError\<close> on an index of another
  shape than declared, and the failure of a fetch (no response, or a status that is not
  2xx), which carries what the fetch reported.
\<close>

datatype 'e error = BaseUrlRequired | InvalidURL | BadJson | BadShape | FetchFailed 'e

definition resolveTargetUrl :: "string \<Rightarrow> string option \<Rightarrow> 'e error + string" where
  "resolveTargetUrl baseUrl path =
     (let trimmedBase = trim baseUrl
      in if trimmedBase = [] then Inl BaseUrlRequired
         else
           let trimmedPath = (case path of None \<Rightarrow> [] | Some p \<Rightarrow> trim p)
           in if trimmedPath \<noteq> [] \<and> rx_test_start http_scheme_rx trimmedPath then Inr trimmedPath
              else
                let baseWithScheme =
                      (if rx_test_start http_scheme_rx trimmedBase then trimmedBase
                       else ''https://'' @ trimmedBase)
                in case URL_parse baseWithScheme of
                     None \<Rightarrow> Inl InvalidURL
                   | Some parsedBase \<Rightarrow>
                       let basePath = pathname parsedBase;
                           looksLikeFile = rx_test file_ext_rx basePath;
                           baseDir =
                             (if endsWith basePath ''/'' then basePath
                              else if looksLikeFile then upto_last_slash basePath
                              else basePath @ ''/'')
                       in if trimmedPath = [] then Inr (URL_toString parsedBase)
                          else
                            case URL_parse_rel baseDir (origin parsedBase) of
                              None \<Rightarrow> Inl InvalidURL
                            | Some baseForResolve \<Rightarrow>
                                let resolvedPath =
                                      (if startsWith trimmedPath ''/'' \<and> baseDir \<noteq> ''/''
                                       then drop 1 trimmedPath else trimmedPath)
                                in case URL_parse_rel resolvedPath (URL_toString baseForResolve) of
                                     None \<Rightarrow> Inl InvalidURL
                                   | Some r \<Rightarrow> Inr (URL_toString r))"

text \<open>
  The body of \<open>stripHtmlExtension\<close> between \<open>new URL(url)\<close> and \<open>toString()\<close>, one
  definition for each of its three \<open>if\<close> statements. The second tests for a path that
  ends in \<open>index.html\<close>; what it cuts is the length of \<open>/index.html\<close>, 11.
\<close>

definition strip_hash :: "URL \<Rightarrow> URL" where
  "strip_hash parsed = (if url_hash parsed \<noteq> [] then parsed\<lparr>fragment := None\<rparr> else parsed)"

definition strip_html :: "URL \<Rightarrow> URL" where
  "strip_html parsed =
     (if endsWith (pathname parsed) ''index.html'' then
        set_pathname
          (let p = slice_off (length ''/index.html'') (pathname parsed)
           in if p = [] then ''/'' else p) parsed
      else if endsWith (pathname parsed) ''glossary.html'' then parsed
      else if endsWith (pathname parsed) ''.html'' then
        set_pathname (slice_off (length ''.html'') (pathname parsed)) parsed
      else parsed)"

definition strip_slash :: "URL \<Rightarrow> URL" where
  "strip_slash parsed =
     (if pathname parsed \<noteq> ''/'' \<and> endsWith (pathname parsed) ''/''
      then set_pathname (slice_off 1 (pathname parsed)) parsed
      else parsed)"

definition strip_parsed :: "URL \<Rightarrow> URL" where
  "strip_parsed parsed = strip_slash (strip_html (strip_hash parsed))"

definition stripHtmlExtension :: "string \<Rightarrow> string" where
  "stripHtmlExtension u =
     (case URL_parse u of
        None \<Rightarrow> u
      | Some parsed \<Rightarrow> URL_toString (strip_parsed parsed))"


section \<open>Fetching a page and rendering it (docset/index.ts)\<close>

text \<open>
  The network is a parameter: \<open>fetch u w\<close> is the body of a 2xx response to a request
  for \<open>u\<close> in the state \<open>w\<close> of the world, or the failure, and the world afterwards
  (\<open>fetchWithRateLimit\<close>, then the test of \<open>response.ok\<close>, then \<open>response.text()\<close>). The
  model keeps the list of the URLs requested so far beside the world.
\<close>

type_synonym 'w net = "string list \<times> 'w"

type_synonym ('w, 'e) fetcher = "string \<Rightarrow> 'w \<Rightarrow> ('e + string) \<times> 'w"

definition fetchHtml :: "('w, 'e) fetcher \<Rightarrow> string \<Rightarrow> 'w net \<Rightarrow> ('e + string) \<times> 'w net" where
  "fetchHtml fetch u st =
     (case fetch u (snd st) of (r, w') \<Rightarrow> (r, (fst st @ [u], w')))"

text \<open>
  \<open>htmlToMarkdown\<close> (markdown.ts): the converter of the turndown library is a parameter;
  blank input is answered before it is called.
\<close>

definition htmlToMarkdown :: "(string \<Rightarrow> string) \<Rightarrow> string \<Rightarrow> string" where
  "htmlToMarkdown turndown html =
     (let cleaned = trim (map (\<lambda>c. if c = CHR 0xA0 then CHR 0x20 else c) html)
      in if cleaned = [] then [] else trim (turndown cleaned))"

record DocsetRequest =
  baseUrl :: string
  path :: "string option"
  docsetType :: "DocsetType option"

text \<open>The result \<open>{ markdown, url, docsetType }\<close>.\<close>

record Rendered =
  markdown :: string
  doc_url :: string
  doc_type :: DocsetType

text \<open>
  The branch for Apple's documentation calls modules that render Apple's JSON; it is a
  parameter that, from the target URL, either returns the rendered page and its URL or
  fails, after which the generic fetch runs from \<open>genericFallbackUrl\<close> (changed by the
  branch, or not).
\<close>

datatype apple_outcome = AppleRendered string string | AppleFailed "string option"

type_synonym 'w apple_branch = "string \<Rightarrow> 'w net \<Rightarrow> apple_outcome \<times> 'w net"

text \<open>
  From \<open>const detected = ...\<close> to the \<open>return\<close>. \<open>extractDocContent\<close> (extract.ts, over
  the DOM of the linkedom library) is a parameter that gives the title and the content.
\<close>

definition render_page ::
  "(string \<Rightarrow> DocsetType \<Rightarrow> string \<times> string) \<Rightarrow> (string \<Rightarrow> string) \<Rightarrow> DocsetRequest
     \<Rightarrow> bool \<Rightarrow> string \<Rightarrow> string \<Rightarrow> Rendered" where
  "render_page extractDocContent turndown request forceGeneric html fetchUrl =
     (let detected =
            (if forceGeneric then Generic
             else (case docsetType request of
                     Some t \<Rightarrow> t
                   | None \<Rightarrow> detectDocsetType html fetchUrl));
          (title, contentHtml) = extractDocContent html detected;
          markdown0 = htmlToMarkdown turndown contentHtml;
          (markdown1, docsetType1) =
            (if markdown0 = [] then (htmlToMarkdown turndown html, Html)
             else (markdown0, detected));
          markdown2 =
            (if title \<noteq> [] \<and> \<not> startsWith markdown1 (''# '' @ title)
             then ''# '' @ title @ [CHR 0x0A, CHR 0x0A] @ markdown1
             else markdown1)
      in \<lparr>markdown = markdown2, doc_url = fetchUrl, doc_type = docsetType1\<rparr>)"

text \<open>
  From \<open>let html\<close> to the end of the \<open>catch\<close>: the page and the URL it was fetched
  from, or the error thrown. After a failed first fetch the retry with a slash assigns
  \<open>html\<close> and \<open>fetchUrl\<close> when it succeeds; the test of \<open>resolvedUrl !== targetUrl\<close>
  runs next in either case.
\<close>

definition fetch_with_fallbacks ::
  "('w, 'e) fetcher \<Rightarrow> string \<Rightarrow> string \<Rightarrow> string \<Rightarrow> 'w net
     \<Rightarrow> ('e error + string \<times> string) \<times> 'w net" where
  "fetch_with_fallbacks fetch resolvedUrl targetUrl genericFallbackUrl st =
     (let fetchUrl = genericFallbackUrl
      in case fetchHtml fetch fetchUrl st of
           (Inr html, st1) \<Rightarrow> (Inr (html, fetchUrl), st1)
         | (Inl err, st1) \<Rightarrow>
             let (assigned, st2) =
                   (if \<not> endsWith fetchUrl ''/'' \<and> \<not> rx_test file_ext_rx fetchUrl then
                      let withSlash = fetchUrl @ ''/''
                      in case fetchHtml fetch withSlash st1 of
                           (Inr html, st') \<Rightarrow> (Some (html, withSlash), st')
                         | (Inl err', st') \<Rightarrow> (None, st')
                    else (None, st1))
             in if resolvedUrl \<noteq> targetUrl then
                  (case fetchHtml fetch resolvedUrl st2 of
                     (Inr html, st3) \<Rightarrow> (Inr (html, resolvedUrl), st3)
                   | (Inl err', st3) \<Rightarrow> (Inl (FetchFailed err'), st3))
                else (Inl (FetchFailed err), st2))"

definition fetchDocumentationMarkdown ::
  "('w, 'e) fetcher \<Rightarrow> 'w apple_branch \<Rightarrow> (string \<Rightarrow> DocsetType \<Rightarrow> string \<times> string)
     \<Rightarrow> (string \<Rightarrow> string) \<Rightarrow> DocsetRequest \<Rightarrow> 'w net \<Rightarrow> ('e error + Rendered) \<times> 'w net" where
  "fetchDocumentationMarkdown fetch appleBranch extractDocContent turndown request st =
     (case resolveTargetUrl (baseUrl request) (path request) of
        Inl e \<Rightarrow> (Inl e, st)
      | Inr resolvedUrl \<Rightarrow>
          let targetUrl = stripHtmlExtension resolvedUrl;
              isApple = (docsetType request = Some Apple \<or> isAppleHost targetUrl);
              generic = (\<lambda>genericFallbackUrl forceGeneric st0.
                 case fetch_with_fallbacks fetch resolvedUrl targetUrl genericFallbackUrl st0 of
                   (Inl e, st1) \<Rightarrow> (Inl e, st1)
                 | (Inr (html, fetchUrl), st1) \<Rightarrow>
                     (Inr (render_page extractDocContent turndown request forceGeneric html fetchUrl),
                      st1))
          in if isApple then
               (case appleBranch targetUrl st of
                  (AppleRendered md u, st0) \<Rightarrow>
                    (Inr \<lparr>markdown = md, doc_url = u, doc_type = Apple\<rparr>, st0)
                | (AppleFailed changed, st0) \<Rightarrow>
                    generic (case changed of None \<Rightarrow> targetUrl | Some u \<Rightarrow> u) True st0)
             else generic targetUrl False st)"

section \<open>Searching a docset (docset/search.ts)\<close>

definition searchIndexPaths :: "string list" where
  "searchIndexPaths =
     [''search/search_index.json'', ''searchindex.json'', ''search.json'',
      ''search-index.json'', ''searchindex.js'']"

definition normalizeInputUrl :: "string \<Rightarrow> 'e error + URL" where
  "normalizeInputUrl input =
     (let trimmed = trim input
      in if trimmed = [] then Inl BaseUrlRequired
         else
           let withScheme =
                 (if rx_test_start http_scheme_rx trimmed then trimmed else ''https://'' @ trimmed)
           in case URL_parse withScheme of
                None \<Rightarrow> Inl InvalidURL
              | Some parsed0 \<Rightarrow>
                  let parsed = parsed0\<lparr>fragment := None, query := None\<rparr>
                  in if endsWith (pathname parsed) ''/index.html'' then
                       Inr (set_pathname
                              (let p = slice_off (length ''/index.html'') (pathname parsed)
                               in if p = [] then ''/'' else p) parsed)
                     else Inr parsed)"

definition ensureTrailingSlash :: "URL \<Rightarrow> URL" where
  "ensureTrailingSlash u =
     (let looksLikeFile = rx_test file_ext_rx (pathname u)
      in if \<not> looksLikeFile \<and> \<not> endsWith (pathname u) ''/''
         then set_pathname (pathname u @ ''/'') u
         else u)"

text \<open>
  The loop of \<open>dedupePreserveOrder\<close>; \<open>seen\<close> and \<open>result\<close> hold the same strings, so
  one list stands for both.
\<close>

fun dedupe_loop :: "string list \<Rightarrow> string list \<Rightarrow> string list" where
  "dedupe_loop result [] = result"
| "dedupe_loop result (v # vs) =
     (if v \<in> set result then dedupe_loop result vs else dedupe_loop (result @ [v]) vs)"

definition dedupePreserveOrder :: "string list \<Rightarrow> string list" where
  "dedupePreserveOrder values = dedupe_loop [] values"

text \<open>\<open>/^\/([a-z]{2}(?:-[a-z]{2})?)\/([^/]+)\//i\<close>\<close>

definition versioned_rx :: rx where
  "versioned_rx =
     rx_seq [rx_lit ''/'',
       Cap (rx_seq [Chr is_alpha, Chr is_alpha,
                    rx_opt (rx_seq [rx_lit ''-'', Chr is_alpha, Chr is_alpha])]),
       rx_lit ''/'', Cap (rx_plus (\<lambda>c. c \<noteq> CHR ''/'')), rx_lit ''/'']"

definition knownVersions :: "string list" where
  "knownVersions = [''latest'', ''stable'', ''dev'', ''master'', ''main'', ''default'', ''current'']"

text \<open>\<open>/^v?\d/i\<close> and \<open>/^\d+\.\d+/\<close>\<close>

definition v_digit_rx :: rx where
  "v_digit_rx = rx_seq [rx_opt (rx_liti ''v''), Chr is_digit]"

definition dotted_number_rx :: rx where
  "dotted_number_rx = rx_seq [rx_plus is_digit, rx_lit ''.'', rx_plus is_digit]"

definition guessVersionedDocsRootPath :: "string \<Rightarrow> string option" where
  "guessVersionedDocsRootPath p =
     (case rx_match_here versioned_rx p of
        Some (m, [lang, version], rest) \<Rightarrow>
          let versionLower = toLowerCase version;
              looksLikeVersion =
                (versionLower \<in> set knownVersions \<or> rx_test_start v_digit_rx versionLower
                 \<or> rx_test_start dotted_number_rx versionLower)
          in if \<not> looksLikeVersion then None else Some (''/'' @ lang @ ''/'' @ version @ ''/'')
      | _ \<Rightarrow> None)"

definition buildSearchBaseCandidates :: "string \<Rightarrow> 'e error + string list" where
  "buildSearchBaseCandidates base =
     (case normalizeInputUrl base of
        Inl e \<Rightarrow> Inl e
      | Inr parsed \<Rightarrow>
          (case (URL_parse_rel ''/'' (origin parsed), URL_parse (URL_toString parsed)) of
             (Some root, Some copy) \<Rightarrow>
               let originRoot = URL_toString root;
                   currentDir = URL_toString (ensureTrailingSlash copy);
                   segments = filter (\<lambda>s. s \<noteq> []) (split_on CHR ''/'' (pathname parsed))
               in (case (case guessVersionedDocsRootPath (pathname parsed) of
                           None \<Rightarrow> Some []
                         | Some versionedRootPath \<Rightarrow>
                             map_option (\<lambda>u. [URL_toString u])
                               (URL_parse_rel versionedRootPath (origin parsed))) of
                     None \<Rightarrow> Inl InvalidURL
                   | Some candidates1 \<Rightarrow>
                       (case (case segments of
                                [] \<Rightarrow> Some []
                              | s # ss \<Rightarrow>
                                  map_option (\<lambda>u. [URL_toString u])
                                    (URL_parse_rel (''/'' @ s @ ''/'') (origin parsed))) of
                          None \<Rightarrow> Inl InvalidURL
                        | Some candidates2 \<Rightarrow>
                            Inr (dedupePreserveOrder
                                   (candidates1 @ candidates2 @ [currentDir, originRoot]))))
           | _ \<Rightarrow> Inl InvalidURL))"

definition normalizeQuery :: "string \<Rightarrow> string" where
  "normalizeQuery q = toLowerCase (trim q)"

definition toAbsoluteUrl :: "string \<Rightarrow> string \<Rightarrow> string" where
  "toAbsoluteUrl base href =
     (case URL_parse_rel href base of Some u \<Rightarrow> URL_toString u | None \<Rightarrow> href)"

definition fetchText :: "('w, 'e) fetcher \<Rightarrow> string \<Rightarrow> 'w net \<Rightarrow> ('e + string) \<times> 'w net" where
  "fetchText fetch u st =
     (case fetch u (snd st) of (r, w') \<Rightarrow> (r, (fst st @ [u], w')))"

text \<open>
  The value \<open>JSON.parse\<close> returns; the parser itself is a parameter (\<open>None\<close>: it throws).
  Numbers are the integers an index uses for its document ids.
\<close>

datatype json =
    JNull
  | JBool bool
  | JNum int
  | JStr string
  | JArr "json list"
  | JObj "(string \<times> json) list"

type_synonym json_parser = "string \<Rightarrow> json option"

record SearchResult =
  title :: string
  url :: string
  snippet :: string
  source :: string

text \<open>
  An index is read at the type the source declares for it: an optional field may be
  absent or \<open>null\<close>, an entry of a string array may be \<open>null\<close> (\<open>None\<close>), and anything
  of another shape is \<open>BadShape\<close>.
\<close>

definition field :: "string \<Rightarrow> (string \<times> json) list \<Rightarrow> json" where
  "field k kvs = (case map_of kvs k of None \<Rightarrow> JNull | Some v \<Rightarrow> v)"

definition opt_string :: "json \<Rightarrow> string option option" where
  "opt_string j = (case j of JNull \<Rightarrow> Some None | JStr s \<Rightarrow> Some (Some s) | _ \<Rightarrow> None)"

fun all_some :: "'a option list \<Rightarrow> 'a list option" where
  "all_some [] = Some []"
| "all_some (x # xs) =
     (case x of None \<Rightarrow> None
      | Some y \<Rightarrow> (case all_some xs of None \<Rightarrow> None | Some ys \<Rightarrow> Some (y # ys)))"

definition opt_strings :: "json \<Rightarrow> string option list option" where
  "opt_strings j =
     (case j of JNull \<Rightarrow> Some [] | JArr xs \<Rightarrow> all_some (map opt_string xs) | _ \<Rightarrow> None)"

text \<open>\<open>xs[i]\<close> on an array of strings: \<open>None\<close> for \<open>undefined\<close> and for \<open>null\<close>.\<close>

definition at_index :: "string option list \<Rightarrow> int \<Rightarrow> string option" where
  "at_index xs i = (if 0 \<le> i \<and> nat i < length xs then xs ! nat i else None)"

record MkDoc =
  doc_title :: "string option"
  doc_text :: "string option"
  doc_location :: "string option"

definition decode_doc :: "json \<Rightarrow> MkDoc option" where
  "decode_doc j =
     (case j of
        JObj kvs \<Rightarrow>
          (case (opt_string (field ''title'' kvs), opt_string (field ''text'' kvs),
                 opt_string (field ''location'' kvs)) of
             (Some t, Some x, Some l) \<Rightarrow> Some \<lparr>doc_title = t, doc_text = x, doc_location = l\<rparr>
           | _ \<Rightarrow> None)
      | _ \<Rightarrow> None)"

definition decode_docs :: "json \<Rightarrow> MkDoc list option" where
  "decode_docs j =
     (case j of
        JObj kvs \<Rightarrow>
          (case field ''docs'' kvs of
             JNull \<Rightarrow> Some []
           | JArr ds \<Rightarrow> all_some (map decode_doc ds)
           | _ \<Rightarrow> None)
      | _ \<Rightarrow> None)"

definition or_empty :: "string option \<Rightarrow> string" where
  "or_empty x = (case x of None \<Rightarrow> [] | Some s \<Rightarrow> s)"

definition parseMkDocsIndex ::
  "json_parser \<Rightarrow> string \<Rightarrow> string \<Rightarrow> string \<Rightarrow> 'e error + SearchResult list" where
  "parseMkDocsIndex parse raw base q =
     (case parse raw of
        None \<Rightarrow> Inl BadJson
      | Some data \<Rightarrow>
          (case decode_docs data of
             None \<Rightarrow> Inl BadShape
           | Some docs \<Rightarrow>
               Inr (map (\<lambda>doc.
                      \<lparr>title = (case doc_title doc of None \<Rightarrow> ''Untitled'' | Some t \<Rightarrow> t),
                       url = (if or_empty (doc_location doc) \<noteq> []
                              then toAbsoluteUrl base (or_empty (doc_location doc)) else base),
                       snippet = take 200 (or_empty (doc_text doc)),
                       source = ''mkdocs''\<rparr>)
                    (filter (\<lambda>doc.
                       str_includes (toLowerCase (or_empty (doc_title doc))) q
                       \<or> str_includes (toLowerCase (or_empty (doc_text doc))) q) docs))))"

definition is_token_char :: "char \<Rightarrow> bool" where
  "is_token_char c = (c \<in> set ''abcdefghijklmnopqrstuvwxyz0123456789_-'')"

text \<open>\<open>s.split(/[^a-z0-9_-]+/g)\<close>, up to empty pieces (\<open>tokenizeQuery\<close> drops them).\<close>

fun split_where :: "(char \<Rightarrow> bool) \<Rightarrow> string \<Rightarrow> string list" where
  "split_where p [] = [[]]"
| "split_where p (c # s) =
     (if p c then [] # split_where p s
      else (case split_where p s of [] \<Rightarrow> [[c]] | x # xs \<Rightarrow> (c # x) # xs))"

definition tokenizeQuery :: "string \<Rightarrow> string list" where
  "tokenizeQuery q =
     filter (\<lambda>token. token \<noteq> [])
       (map trim (split_where (\<lambda>c. \<not> is_token_char c) (toLowerCase q)))"

fun extractSphinxDocIds :: "json \<Rightarrow> int list" where
  "extractSphinxDocIds (JNum n) = [n]"
| "extractSphinxDocIds (JArr entries) =
     concat (map (\<lambda>entry.
        case entry of
          JNum n \<Rightarrow> [n]
        | JArr (JNum n # rest) \<Rightarrow> [n]
        | _ \<Rightarrow> []) entries)"
| "extractSphinxDocIds j = []"

record SphinxIndex =
  docnames :: "string option list"
  titles :: "string option list"
  filenames :: "string option list"
  terms :: "(string \<times> json) list"

definition decode_sphinx :: "json \<Rightarrow> SphinxIndex option" where
  "decode_sphinx j =
     (case j of
        JObj kvs \<Rightarrow>
          (case (opt_strings (field ''docnames'' kvs), opt_strings (field ''titles'' kvs),
                 opt_strings (field ''filenames'' kvs), field ''terms'' kvs) of
             (Some d, Some t, Some f, JNull) \<Rightarrow>
               Some \<lparr>docnames = d, titles = t, filenames = f, terms = []\<rparr>
           | (Some d, Some t, Some f, JObj ts) \<Rightarrow>
               Some \<lparr>docnames = d, titles = t, filenames = f, terms = ts\<rparr>
           | _ \<Rightarrow> None)
      | _ \<Rightarrow> None)"

text \<open>
  \<open>scores\<close> is a \<open>Map\<close>, which keeps its keys in the order of their first insertion:
  \<open>scores.set(k, (scores.get(k) ?? 0) + n)\<close>.
\<close>

definition bump :: "int \<Rightarrow> int \<Rightarrow> (int \<times> int) list \<Rightarrow> (int \<times> int) list" where
  "bump n k scores =
     (if k \<in> set (map fst scores)
      then map (\<lambda>(k', v). if k' = k then (k', v + n) else (k', v)) scores
      else scores @ [(k, n)])"

text \<open>The first loop: every document id in the postings of every token scores 2.\<close>

definition score_terms :: "SphinxIndex \<Rightarrow> string \<Rightarrow> (int \<times> int) list" where
  "score_terms data q =
     fold (bump 2)
       (concat (map (\<lambda>token. extractSphinxDocIds (field token (terms data))) (tokenizeQuery q)))
       []"

text \<open>The second loop, over \<open>titles.entries()\<close>.\<close>

definition title_hit :: "SphinxIndex \<Rightarrow> string \<Rightarrow> nat \<Rightarrow> bool" where
  "title_hit data q i =
     (str_includes (toLowerCase (or_empty (titles data ! i))) q
      \<or> str_includes (toLowerCase (or_empty (at_index (docnames data) (int i)))) q)"

definition score_titles :: "SphinxIndex \<Rightarrow> string \<Rightarrow> (int \<times> int) list \<Rightarrow> (int \<times> int) list" where
  "score_titles data q scores =
     fold (\<lambda>i sc. if title_hit data q i then bump 3 (int i) sc else sc)
       [0 ..< length (titles data)] scores"

text \<open>\<open>Array.from(scores.entries()).sort((a, b) => b[1] - a[1]).slice(0, 20)\<close>; the sort is stable.\<close>

definition ranked :: "SphinxIndex \<Rightarrow> string \<Rightarrow> (int \<times> int) list" where
  "ranked data q =
     take 20 (sort_key (\<lambda>e. - snd e) (score_titles data q (score_terms data q)))"

definition sphinx_entry :: "SphinxIndex \<Rightarrow> string \<Rightarrow> int \<Rightarrow> SearchResult" where
  "sphinx_entry data base i =
     (let filename =
            (case at_index (filenames data) i of
               Some f \<Rightarrow> f
             | None \<Rightarrow>
                 (if or_empty (at_index (docnames data) i) \<noteq> []
                  then or_empty (at_index (docnames data) i) @ ''.html'' else []));
          u = (if filename \<noteq> [] then toAbsoluteUrl base filename else base);
          t = (case at_index (titles data) i of
                 Some t \<Rightarrow> t
               | None \<Rightarrow> (case at_index (docnames data) i of Some d \<Rightarrow> d | None \<Rightarrow> u))
      in \<lparr>title = t, url = u, snippet = [], source = ''sphinx''\<rparr>)"

definition sphinx_results :: "SphinxIndex \<Rightarrow> string \<Rightarrow> string \<Rightarrow> SearchResult list" where
  "sphinx_results data base q =
     filter (\<lambda>entry. title entry \<noteq> [] \<and> url entry \<noteq> [])
       (map (\<lambda>e. sphinx_entry data base (fst e)) (ranked data q))"

definition any_char :: "char \<Rightarrow> bool" where
  "any_char c = True"

text \<open>\<open>/Search\.setIndex\((\{[\s\S]*\})\);/\<close> and \<open>/var\s+index\s*=\s*(\{[\s\S]*\});/\<close>\<close>

definition setIndex_rx :: rx where
  "setIndex_rx =
     rx_seq [rx_lit ''Search.setIndex('',
       Cap (rx_seq [rx_lit ''{'', Many any_char, rx_lit ''}'']), rx_lit '');'']"

definition var_index_rx :: rx where
  "var_index_rx =
     rx_seq [rx_lit ''var'', rx_plus is_space, rx_lit ''index'', Many is_space, rx_lit ''='',
       Many is_space, Cap (rx_seq [rx_lit ''{'', Many any_char, rx_lit ''}'']), rx_lit '';'']"

definition parseSphinxIndex ::
  "json_parser \<Rightarrow> string \<Rightarrow> string \<Rightarrow> string \<Rightarrow> 'e error + SearchResult list" where
  "parseSphinxIndex parse raw base q =
     (case (case rx_search setIndex_rx raw of
              Some m \<Rightarrow> Some m
            | None \<Rightarrow> rx_search var_index_rx raw) of
        Some (m, js # cs, rest) \<Rightarrow>
          (case parse js of
             None \<Rightarrow> Inl BadJson
           | Some j \<Rightarrow>
               (case decode_sphinx j of
                  None \<Rightarrow> Inl BadShape
                | Some data \<Rightarrow> Inr (sphinx_results data base q)))
      | _ \<Rightarrow> Inr [])"

text \<open>\<open>/<loc>([^<]+)<\/loc>/gi\<close>\<close>

definition loc_rx :: rx where
  "loc_rx = rx_seq [rx_liti ''<loc>'', Cap (rx_plus (\<lambda>c. c \<noteq> CHR ''<'')), rx_liti ''</loc>'']"

definition parseSitemap :: "string \<Rightarrow> string \<Rightarrow> string \<Rightarrow> SearchResult list" where
  "parseSitemap raw base q =
     map (\<lambda>loc.
        \<lparr>title = (let t = last (split_on CHR ''/'' loc) in if t = [] then loc else t),
         url = toAbsoluteUrl base loc,
         snippet = [],
         source = ''sitemap''\<rparr>)
       (filter (\<lambda>loc. str_includes (toLowerCase loc) q)
          (map (\<lambda>caps. or_empty (case caps of [] \<Rightarrow> None | c # cs \<Rightarrow> Some c))
             (rx_match_all loc_rx raw)))"

text \<open>
  The body of the \<open>try\<close> inside the two loops over bases and paths: \<open>Some\<close> results when
  the function returns them, \<open>None\<close> when the loop goes on (nothing found, or something
  thrown and caught).
\<close>

definition probe_index ::
  "('w, 'e) fetcher \<Rightarrow> json_parser \<Rightarrow> DocsetType option \<Rightarrow> string \<Rightarrow> string \<Rightarrow> string
     \<Rightarrow> 'w net \<Rightarrow> SearchResult list option \<times> 'w net" where
  "probe_index fetch parse hint q base p st =
     (let indexUrl = toAbsoluteUrl base p
      in case fetchText fetch indexUrl st of
           (Inl err, st1) \<Rightarrow> (None, st1)
         | (Inr raw, st1) \<Rightarrow>
             (case (if endsWith p ''.json'' \<and> (hint = Some Mkdocs \<or> hint = None)
                    then (parseMkDocsIndex parse raw base q :: 'e error + SearchResult list)
                    else Inr []) of
                Inl thrown \<Rightarrow> (None, st1)
              | Inr results \<Rightarrow>
                  if results \<noteq> [] then (Some results, st1)
                  else
                    (case (if endsWith p ''.js'' \<and> (hint = Some Sphinx \<or> hint = None)
                           then (parseSphinxIndex parse raw base q :: 'e error + SearchResult list)
                           else Inr []) of
                       Inl thrown \<Rightarrow> (None, st1)
                     | Inr results' \<Rightarrow>
                         if results' \<noteq> [] then (Some results', st1) else (None, st1))))"

fun probe_paths ::
  "('w, 'e) fetcher \<Rightarrow> json_parser \<Rightarrow> DocsetType option \<Rightarrow> string \<Rightarrow> string \<Rightarrow> string list
     \<Rightarrow> 'w net \<Rightarrow> SearchResult list option \<times> 'w net" where
  "probe_paths fetch parse hint q base [] st = (None, st)"
| "probe_paths fetch parse hint q base (p # ps) st =
     (case probe_index fetch parse hint q base p st of
        (Some results, st1) \<Rightarrow> (Some results, st1)
      | (None, st1) \<Rightarrow> probe_paths fetch parse hint q base ps st1)"

fun probe_bases ::
  "('w, 'e) fetcher \<Rightarrow> json_parser \<Rightarrow> DocsetType option \<Rightarrow> string \<Rightarrow> string list \<Rightarrow> string list
     \<Rightarrow> 'w net \<Rightarrow> SearchResult list option \<times> 'w net" where
  "probe_bases fetch parse hint q [] pathsToTry st = (None, st)"
| "probe_bases fetch parse hint q (base # bases) pathsToTry st =
     (case probe_paths fetch parse hint q base pathsToTry st of
        (Some results, st1) \<Rightarrow> (Some results, st1)
      | (None, st1) \<Rightarrow> probe_bases fetch parse hint q bases pathsToTry st1)"

text \<open>
  The last \<open>try\<close>: its \<open>catch\<close> is around the whole loop over the bases, so a sitemap
  that cannot be fetched ends the search with no result.
\<close>

fun sitemap_loop ::
  "('w, 'e) fetcher \<Rightarrow> string \<Rightarrow> string list \<Rightarrow> 'w net \<Rightarrow> SearchResult list \<times> 'w net" where
  "sitemap_loop fetch q [] st = ([], st)"
| "sitemap_loop fetch q (base # bases) st =
     (case fetchText fetch (toAbsoluteUrl base ''sitemap.xml'') st of
        (Inl err, st1) \<Rightarrow> ([], st1)
      | (Inr sitemap, st1) \<Rightarrow>
          let results = parseSitemap sitemap base q
          in if results \<noteq> [] then (results, st1) else sitemap_loop fetch q bases st1)"

definition searchDocumentation ::
  "('w, 'e) fetcher \<Rightarrow> json_parser \<Rightarrow> string \<Rightarrow> string \<Rightarrow> DocsetType option \<Rightarrow> 'w net
     \<Rightarrow> ('e error + SearchResult list) \<times> 'w net" where
  "searchDocumentation fetch parse base q hint st =
     (let normalizedQuery = normalizeQuery q
      in if normalizedQuery = [] then (Inr [], st)
         else
           case buildSearchBaseCandidates base of
             Inl e \<Rightarrow> (Inl e, st)
           | Inr bases \<Rightarrow>
               let pathsToTry =
                     (if hint = Some Mkdocs then filter (\<lambda>p. endsWith p ''.json'') searchIndexPaths
                      else if hint = Some Sphinx then filter (\<lambda>p. endsWith p ''.js'') searchIndexPaths
                      else searchIndexPaths)
               in case probe_bases fetch parse hint normalizedQuery bases pathsToTry st of
                    (Some results, st1) \<Rightarrow> (Inr results, st1)
                  | (None, st1) \<Rightarrow>
                      (case sitemap_loop fetch normalizedQuery bases st1 of
                         (results, st2) \<Rightarrow> (Inr results, st2)))"

section \<open>Invariants of parsed URLs\<close>








section \<open>The candidate bases as listed\<close>


section \<open>The score of a document in a Sphinx index\<close>






section \<open>Inputs used in the examples\<close>

text \<open>A network without state in which every request fails with status 404.\<close>

definition net_404 :: "(unit, nat) fetcher" where
  "net_404 = (\<lambda>u w. (Inl 404, w))"



text \<open>A site that serves \<open>/guide/\<close> and answers 404 to \<open>/guide\<close> and everything else.\<close>

definition net_guide_slash :: "(unit, nat) fetcher" where
  "net_guide_slash =
     (\<lambda>u w. (if u = ''https://docs.example.com/guide/'' then Inr ''<main>Guide</main>''
              else Inl 404, w))"

text \<open>A site with no search index whose only sitemap is at the root.\<close>

definition root_sitemap :: string where
  "root_sitemap =
     ''<urlset><url><loc>https://docs.example.com/guide/intro</loc></url></urlset>''"

definition net_root_sitemap :: "(unit, nat) fetcher" where
  "net_root_sitemap =
     (\<lambda>u w. (if u = ''https://docs.example.com/sitemap.xml'' then Inr root_sitemap
              else Inl 404, w))"

text \<open>A site that answers every request with the same page.\<close>

definition net_same_page :: "(unit, nat) fetcher" where
  "net_same_page = (\<lambda>u w. (Inr ''<div id=app></div>'', w))"

text \<open>An extraction that finds neither a title nor content.\<close>

definition extract_nothing :: "string \<Rightarrow> DocsetType \<Rightarrow> string \<times> string" where
  "extract_nothing html t = ([], [])"

definition no_apple :: "unit apple_branch" where
  "no_apple u st = (AppleFailed None, st)"

text \<open>
  A site with a MkDocs index at the root and the sitemap above, and the value
  \<open>JSON.parse\<close> gives for that index.
\<close>

definition mkdocs_index :: string where
  \<open>mkdocs_index = ''{"docs":[{"title":"Intro","text":"Welcome","location":"intro/"}]}''\<close>

definition parse_mkdocs_index :: json_parser where
  "parse_mkdocs_index s =
     (if s = mkdocs_index
      then Some (JObj [(''docs'', JArr [JObj [(''title'', JStr ''Intro''),
                  (''text'', JStr ''Welcome''), (''location'', JStr ''intro/'')]])])
      else None)"

definition net_mkdocs_site :: "(unit, nat) fetcher" where
  "net_mkdocs_site =
     (\<lambda>u w. (if u = ''https://docs.example.com/search/search_index.json'' then Inr mkdocs_index
              else if u = ''https://docs.example.com/sitemap.xml'' then Inr root_sitemap
              else Inl 404, w))"






section \<open>Properties of the URL class and of the regular expressions\<close>










lemma in_butlast: "x \<in> set (butlast xs) \<Longrightarrow> x \<in> set xs"
  by (rule in_set_butlastD)


















lemma rx_run_Cap_mem:
  "(s', cs') \<in> set (rx_run (Cap r) (s, cs)) \<longleftrightarrow>
     (\<exists>cs''. (s', cs'') \<in> set (rx_run r (s, cs)) \<and> cs' = cs'' @ [take (length s - length s') s])"
  by auto

























































































lemma toString_origin:
  "query u = None \<Longrightarrow> fragment u = None \<Longrightarrow> URL_toString u = origin u @ pathname u"
  by (simp add: URL_toString_def origin_def)











lemma dedupe_loop_set: "set (dedupe_loop acc xs) = set acc \<union> set xs"
  by (induction acc xs rule: dedupe_loop.induct) auto



















section \<open>Properties of the Sphinx scores\<close>

































section \<open>Properties of the fetch orchestrator\<close>

text \<open>
  Claim C1 (the retry with a trailing slash). The claim: when the first fetch of the
  target fails and the fetch of the target with a slash appended succeeds, the operation
  succeeds with the slashed URL. The code assigns the page and the slashed URL and then
  goes on to the test of \<open>resolvedUrl !== targetUrl\<close>, which throws the first error when
  the two are equal. For the base \<open>https://docs.example.com/guide\<close> on a site that serves
  only \<open>/guide/\<close>, both URLs are requested, the second succeeds, and the call fails with
  the 404 of the first.
\<close>

theorem slash_retry_result_is_discarded:
  "fetchDocumentationMarkdown net_guide_slash no_apple extractDocContent turndown
     \<lparr>baseUrl = ''https://docs.example.com/guide'', path = None, docsetType = None\<rparr> ([], ())
   = (Inl (FetchFailed 404),
      ([''https://docs.example.com/guide'', ''https://docs.example.com/guide/''], ()))"
  by code_simp

text \<open>
  Claim C6 (the whole-page fallback). When the extracted content converts to nothing the
  code converts the whole page and tags the result \<open>html\<close>; that tag is not among the
  ten values of \<open>docsetTypes\<close>, from which the declared type of the result is derived.
\<close>

theorem fallback_tag_not_in_docsetTypes:
  "fetchDocumentationMarkdown net_same_page no_apple extract_nothing turndown
     \<lparr>baseUrl = ''https://docs.example.com/app'', path = None, docsetType = None\<rparr> ([], ())
   = (Inr \<lparr>markdown = htmlToMarkdown turndown ''<div id=app></div>'',
           doc_url = ''https://docs.example.com/app'', doc_type = Html\<rparr>,
      ([''https://docs.example.com/app''], ()))
   \<and> Html \<notin> set docsetTypes \<and> length docsetTypes = 10"
  by code_simp

section \<open>Properties of the URL normaliser\<close>

text \<open>
  Claim C5 (what \<open>stripHtmlExtension\<close> removes). The claim: a file name such as
  \<open>/myindex.html\<close> loses only its \<open>.html\<close>. The code tests for a path that ends in
  \<open>index.html\<close> and then cuts the 11 characters of \<open>/index.html\<close>, so \<open>/myindex.html\<close>
  becomes \<open>/m\<close>.
\<close>

theorem myindex_is_cut_to_m:
  "stripHtmlExtension ''https://docs.example.com/myindex.html'' = ''https://docs.example.com/m''"
  by code_simp




section \<open>Properties of the detector\<close>




section \<open>Properties of the search\<close>

text \<open>
  Claim C9 (a blank query): for every base URL and every query that is blank after
  trimming, \<open>searchDocumentation\<close> returns the empty list and raises nothing; the list
  of requested URLs and the world are as they were, so nothing was fetched.
\<close>

theorem blank_query_returns_nothing_without_fetching:
  "trim q = [] \<Longrightarrow> searchDocumentation fetch parse base q hint st = (Inr [], st)"
  by (simp add: searchDocumentation_def normalizeQuery_def toLowerCase_def)

theorem blank_query_returns_nothing_without_fetching_witness:
  "trim [CHR 0x20, CHR 0x09, CHR 0x0A] = []
   \<and> searchDocumentation net_mkdocs_site parse_mkdocs_index ''https://docs.example.com/''
        [CHR 0x20, CHR 0x09, CHR 0x0A] None ([], ()) = (Inr [], ([], ()))"
proof -
  have h: "trim [CHR 0x20, CHR 0x09, CHR 0x0A] = []" by code_simp
  from blank_query_returns_nothing_without_fetching [OF h] h show ?thesis by blast
qed

lemma probe_index_other_hint:
  assumes "hint = Some t" "t \<noteq> Mkdocs" "t \<noteq> Sphinx"
  shows "probe_index fetch parse hint q b p st
           = (None, snd (fetchText fetch (toAbsoluteUrl b p) st))"
  using assms by (simp add: probe_index_def Let_def split: prod.splits sum.splits)

lemma probe_paths_other_hint:
  assumes "hint = Some t" "t \<noteq> Mkdocs" "t \<noteq> Sphinx"
  shows "fst (probe_paths fetch parse hint q b ps st) = None"
  by (induction ps arbitrary: st) (simp_all add: probe_index_other_hint [OF assms])

lemma probe_bases_other_hint:
  assumes "hint = Some t" "t \<noteq> Mkdocs" "t \<noteq> Sphinx"
  shows "fst (probe_bases fetch parse hint q bs ps st) = None"
proof (induction bs arbitrary: st)
  case Nil
  show ?case by simp
next
  case (Cons b bs)
  obtain st1 where "probe_paths fetch parse hint q b ps st = (None, st1)"
    using probe_paths_other_hint [OF assms, of fetch parse q b ps st]
    by (cases "probe_paths fetch parse hint q b ps st") auto
  then show ?case using Cons.IH by simp
qed

lemma parseSitemap_source: "list_all (\<lambda>r. source r = ''sitemap'') (parseSitemap raw b q)"
  by (simp add: parseSitemap_def list_all_iff)

lemma sitemap_loop_source:
  "list_all (\<lambda>r. source r = ''sitemap'') (fst (sitemap_loop fetch q bs st))"
  by (induction bs arbitrary: st)
     (auto simp: Let_def parseSitemap_source split: prod.splits sum.splits)

text \<open>
  Claim C10 (a hint other than \<open>mkdocs\<close> and \<open>sphinx\<close>): with such a hint every probe of
  an index path fetches the index and goes on to the next path whatever the body is,
  so neither parser runs on it; and every result \<open>searchDocumentation\<close> returns has the
  source \<open>sitemap\<close> (the list may be empty).
\<close>

theorem other_hint_gives_sitemap_results_only:
  assumes "hint = Some t" "t \<noteq> Mkdocs" "t \<noteq> Sphinx"
  shows "probe_index fetch parse hint q b p st
           = (None, snd (fetchText fetch (toAbsoluteUrl b p) st))
       \<and> (\<forall>rs st'. searchDocumentation fetch parse base qry hint st = (Inr rs, st')
             \<longrightarrow> list_all (\<lambda>r. source r = ''sitemap'') rs)"
proof (intro conjI allI impI)
  show "probe_index fetch parse hint q b p st
           = (None, snd (fetchText fetch (toAbsoluteUrl b p) st))"
    by (rule probe_index_other_hint [OF assms])
next
  fix rs st'
  assume run: "searchDocumentation fetch parse base qry hint st = (Inr rs, st')"
  show "list_all (\<lambda>r. source r = ''sitemap'') rs"
  proof (cases "normalizeQuery qry = []")
    case True
    with run show ?thesis by (simp add: searchDocumentation_def)
  next
    case False
    show ?thesis
    proof (cases "buildSearchBaseCandidates base :: 'b error + string list")
      case (Inl e)
      with run False show ?thesis by (simp add: searchDocumentation_def)
    next
      case (Inr bases)
      let ?paths = "if hint = Some Mkdocs then filter (\<lambda>p. endsWith p ''.json'') searchIndexPaths
                      else if hint = Some Sphinx then filter (\<lambda>p. endsWith p ''.js'') searchIndexPaths
                      else searchIndexPaths"
      obtain st1 where
        p: "probe_bases fetch parse hint (normalizeQuery qry) bases ?paths st = (None, st1)"
        using probe_bases_other_hint [OF assms, of fetch parse "normalizeQuery qry" bases ?paths st]
        by (cases "probe_bases fetch parse hint (normalizeQuery qry) bases ?paths st") auto
      have "rs = fst (sitemap_loop fetch (normalizeQuery qry) bases st1)"
        using run False Inr p by (simp add: searchDocumentation_def Let_def split: prod.splits)
      then show ?thesis by (simp add: sitemap_loop_source)
    qed
  qed
qed

theorem other_hint_gives_sitemap_results_only_witness:
  "Some Docusaurus = Some Docusaurus \<and> Docusaurus \<noteq> Mkdocs \<and> Docusaurus \<noteq> Sphinx
   \<and> probe_index net_mkdocs_site parse_mkdocs_index (Some Docusaurus) ''intro''
        ''https://docs.example.com/'' ''search/search_index.json'' ([], ())
       = (None, ([''https://docs.example.com/search/search_index.json''], ()))
   \<and> searchDocumentation net_mkdocs_site parse_mkdocs_index ''https://docs.example.com/''
        ''intro'' (Some Docusaurus) ([], ())
       = (Inr [\<lparr>title = ''intro'', url = ''https://docs.example.com/guide/intro'',
                snippet = [], source = ''sitemap''\<rparr>],
          ([''https://docs.example.com/search/search_index.json'',
            ''https://docs.example.com/searchindex.json'',
            ''https://docs.example.com/search.json'',
            ''https://docs.example.com/search-index.json'',
            ''https://docs.example.com/searchindex.js'',
            ''https://docs.example.com/sitemap.xml''], ()))
   \<and> list_all (\<lambda>r. source r = ''sitemap'')
        [\<lparr>title = ''intro'', url = ''https://docs.example.com/guide/intro'',
          snippet = [], source = ''sitemap''\<rparr>]"
proof -
  have run: "searchDocumentation net_mkdocs_site parse_mkdocs_index ''https://docs.example.com/''
        ''intro'' (Some Docusaurus) ([], ())
       = (Inr [\<lparr>title = ''intro'', url = ''https://docs.example.com/guide/intro'',
                snippet = [], source = ''sitemap''\<rparr>],
          ([''https://docs.example.com/search/search_index.json'',
            ''https://docs.example.com/searchindex.json'',
            ''https://docs.example.com/search.json'',
            ''https://docs.example.com/search-index.json'',
            ''https://docs.example.com/searchindex.js'',
            ''https://docs.example.com/sitemap.xml''], ()))"
    by code_simp
  have fetched: "snd (fetchText net_mkdocs_site
        (toAbsoluteUrl ''https://docs.example.com/'' ''search/search_index.json'') ([], ()))
      = ([''https://docs.example.com/search/search_index.json''], ())"
    by code_simp
  have d: "Docusaurus \<noteq> Mkdocs" "Docusaurus \<noteq> Sphinx" by simp_all
  note inst = other_hint_gives_sitemap_results_only [OF refl d,
      where fetch = net_mkdocs_site and parse = parse_mkdocs_index and q = "''intro''"
        and b = "''https://docs.example.com/''" and p = "''search/search_index.json''"
        and st = "([], ())" and base = "''https://docs.example.com/''" and qry = "''intro''"]
  from inst run have all_sitemap: "list_all (\<lambda>r. source r = ''sitemap'')
        [\<lparr>title = ''intro'', url = ''https://docs.example.com/guide/intro'',
          snippet = [], source = ''sitemap''\<rparr>]"
    by blast
  from inst fetched have probe:
    "probe_index net_mkdocs_site parse_mkdocs_index (Some Docusaurus) ''intro''
        ''https://docs.example.com/'' ''search/search_index.json'' ([], ())
       = (None, ([''https://docs.example.com/search/search_index.json''], ()))"
    by simp
  show ?thesis using d run all_sitemap probe by blast
qed

text \<open>
  Claim C3 (the sitemap fallback). The claim: a sitemap that cannot be fetched at one
  candidate base is passed over and the next base is tried. The \<open>catch\<close> of the sitemap
  loop is around the whole loop (the loop over the index paths has it inside), so the
  first sitemap that cannot be fetched ends the search. For the page
  \<open>https://docs.example.com/guide/\<close> the bases are the page's directory and the root;
  the site has its sitemap at the root only and that sitemap has an entry for the
  query; the search asks for \<open>/guide/sitemap.xml\<close>, never for \<open>/sitemap.xml\<close>, and
  returns nothing.
\<close>

theorem sitemap_failure_ends_the_search:
  "(buildSearchBaseCandidates ''https://docs.example.com/guide/'' :: nat error + string list)
     = Inr [''https://docs.example.com/guide/'', ''https://docs.example.com/'']
   \<and> net_root_sitemap ''https://docs.example.com/sitemap.xml'' () = (Inr root_sitemap, ())
   \<and> parseSitemap root_sitemap ''https://docs.example.com/'' ''intro''
       = [\<lparr>title = ''intro'', url = ''https://docs.example.com/guide/intro'',
           snippet = [], source = ''sitemap''\<rparr>]
   \<and> searchDocumentation net_root_sitemap parse_mkdocs_index ''https://docs.example.com/guide/''
        ''intro'' None ([], ())
       = (Inr [],
          ([''https://docs.example.com/guide/search/search_index.json'',
            ''https://docs.example.com/guide/searchindex.json'',
            ''https://docs.example.com/guide/search.json'',
            ''https://docs.example.com/guide/search-index.json'',
            ''https://docs.example.com/guide/searchindex.js'',
            ''https://docs.example.com/search/search_index.json'',
            ''https://docs.example.com/searchindex.json'',
            ''https://docs.example.com/search.json'',
            ''https://docs.example.com/search-index.json'',
            ''https://docs.example.com/searchindex.js'',
            ''https://docs.example.com/guide/sitemap.xml''], ()))"
  by code_simp







end
